theory Spec2Isabelle
  imports Main "HOL-Library.Sublist"
begin

section \<open>Strings of the program\<close>

text \<open>
  A JavaScript string is modelled as a \<^typ>\<open>string\<close>, one \<^typ>\<open>char\<close> per UTF-16 code
  unit; the model covers the strings whose code units are below 256.
\<close>

text \<open>\<^verbatim>\<open>s.includes(t)\<close>: does \<open>t\<close> occur in \<open>s\<close> as a contiguous run.\<close>

fun includes_str :: "string \<Rightarrow> string \<Rightarrow> bool" where
  "includes_str [] t = (t = [])"
| "includes_str (c # s) t = (prefix t (c # s) \<or> includes_str s t)"

text \<open>
  White space and line terminators of ECMAScript with a code unit below 256:
  TAB, LF, VT, FF, CR, SP and NBSP.
\<close>

definition isWhiteSpace :: "char \<Rightarrow> bool" where
  "isWhiteSpace c \<longleftrightarrow>
     c = CHR 0x09 \<or> c = CHR 0x0A \<or> c = CHR 0x0B \<or> c = CHR 0x0C \<or> c = CHR 0x0D \<or>
     c = CHR 0x20 \<or> c = CHR 0xA0"

text \<open>\<^verbatim>\<open>s.trim()\<close> removes white space at both ends.\<close>

definition trim :: "string \<Rightarrow> string" where
  "trim s = rev (dropWhile isWhiteSpace (rev (dropWhile isWhiteSpace s)))"

text \<open>\<^verbatim>\<open>s.substring(0, n)\<close> for a non-negative \<open>n\<close>.\<close>

definition substring0 :: "string \<Rightarrow> nat \<Rightarrow> string" where
  "substring0 s n = take n s"

section \<open>The process environment and the module constants\<close>

text \<open>
  \<^verbatim>\<open>process.env\<close> maps a variable name to its value, when it is set. A value read from
  it is falsy when the variable is unset or set to the empty string.
\<close>

type_synonym env = "string \<Rightarrow> string option"

definition falsy :: "string option \<Rightarrow> bool" where
  "falsy v \<longleftrightarrow> v = None \<or> v = Some []"

text \<open>A template literal prints an unset variable as \<^verbatim>\<open>undefined\<close>.\<close>

definition interpolate :: "string option \<Rightarrow> string" where
  "interpolate v = (case v of None \<Rightarrow> ''undefined'' | Some s \<Rightarrow> s)"

text \<open>
  The constants both modules capture when they are loaded, then the ones only
  \<^verbatim>\<open>server.js\<close> (\<open>GIT_REPO_PATH\<close>) or only \<^verbatim>\<open>app.js\<close> (\<open>tempFolder\<close>) captures.
\<close>

record module_consts =
  BRANCH_NAME :: string
  SRC_FOLDER :: string
  TOKEN :: string

record server_consts = module_consts +
  GIT_REPO_PATH :: string

record app_consts = module_consts +
  tempFolder :: string

text \<open>
  Loading \<^verbatim>\<open>server.js\<close>: the four variables are read once; the process exits with code 1
  (\<open>Inl 1\<close>) when one of them is falsy.
\<close>

definition server_load :: "env \<Rightarrow> nat + server_consts" where
  "server_load e =
     (if falsy (e ''GIT_REPO_PATH'') \<or> falsy (e ''BRANCH_NAME'') \<or>
         falsy (e ''SRC_FOLDER'') \<or> falsy (e ''TOKEN'')
      then Inl 1
      else Inr \<lparr>BRANCH_NAME = interpolate (e ''BRANCH_NAME''),
                SRC_FOLDER = interpolate (e ''SRC_FOLDER''),
                TOKEN = interpolate (e ''TOKEN''),
                GIT_REPO_PATH = interpolate (e ''GIT_REPO_PATH'')\<rparr>)"

text \<open>
  Loading \<^verbatim>\<open>app.js\<close>: the four variables are required, three of them are captured;
  \<open>tmp\<close> is what \<^verbatim>\<open>os.tmpdir()\<close> returns.
\<close>

definition requiredEnvVars :: "string list" where
  "requiredEnvVars = [''GIT_REPO_PATH'', ''BRANCH_NAME'', ''SRC_FOLDER'', ''TOKEN'']"

definition missingEnvVars :: "env \<Rightarrow> string list" where
  "missingEnvVars e = filter (\<lambda>key. falsy (e key)) requiredEnvVars"

definition app_load :: "env \<Rightarrow> string \<Rightarrow> nat + app_consts" where
  "app_load e tmp =
     (if length (missingEnvVars e) > 0 then Inl 1
      else Inr \<lparr>BRANCH_NAME = interpolate (e ''BRANCH_NAME''),
                SRC_FOLDER = interpolate (e ''SRC_FOLDER''),
                TOKEN = interpolate (e ''TOKEN''),
                tempFolder = tmp\<rparr>)"

section \<open>The outside world\<close>

text \<open>
  The handlers act on the outside world through \<^verbatim>\<open>child_process.exec\<close>,
  \<^verbatim>\<open>fs.access\<close>, \<^verbatim>\<open>fs.unlink\<close>, \<^verbatim>\<open>nanoid\<close> and the \<^verbatim>\<open>path\<close> module. None of them
  is code of this repository: they are parameters of the model, over any type \<open>'w\<close> of
  world states. A rejected promise is \<open>Inl\<close> of the error it carries.
\<close>

datatype js_error = ExecError string | FsError string

record 'w sys =
  exec :: "string \<Rightarrow> 'w \<Rightarrow> (js_error + string) \<times> 'w"
  fs_access :: "string \<Rightarrow> 'w \<Rightarrow> bool"
  fs_unlink :: "string \<Rightarrow> 'w \<Rightarrow> (js_error + unit) \<times> 'w"
  nanoid :: "'w \<Rightarrow> string \<times> 'w"
  path_join :: "string \<Rightarrow> string \<Rightarrow> string"
  path_dirname :: "string \<Rightarrow> string"
  path_basename :: "string \<Rightarrow> string"

text \<open>
  Every effect of a handler is recorded, in order. An \<open>Exec\<close> event carries the call site
  of the handler that issued the command (a label of the model), the command string handed
  to the shell, and the outcome.
\<close>

datatype call_site = Fetch | Status | Pull | RevParse | Build

datatype event =
    Exec call_site string "js_error + string"
  | Access string bool
  | Unlink string "js_error + unit"
  | Nanoid string
  | ConsoleLog string
  | ConsoleError js_error

type_synonym 'w state = "'w \<times> event list"

datatype response = Send nat string | Download string

text \<open>An awaited operation: it changes the state and resolves (\<open>Inr\<close>) or rejects.\<close>

type_synonym ('w, 'a) promise = "'w state \<Rightarrow> (js_error + 'a) \<times> 'w state"

text \<open>\<^verbatim>\<open>await p\<close> followed by the rest of the \<^verbatim>\<open>try\<close> block: a rejection skips the rest.\<close>

definition await :: "('w, 'a) promise \<Rightarrow> ('a \<Rightarrow> ('w, 'b) promise) \<Rightarrow> ('w, 'b) promise" where
  "await p k s = (case p s of (Inl err, s') \<Rightarrow> (Inl err, s') | (Inr v, s') \<Rightarrow> k v s')"

definition resolve :: "'a \<Rightarrow> ('w, 'a) promise" where
  "resolve v s = (Inr v, s)"

definition execAsync :: "'w sys \<Rightarrow> call_site \<Rightarrow> string \<Rightarrow> ('w, string) promise" where
  "execAsync S site cmd s =
     (case s of (w, tr) \<Rightarrow>
        (case exec S cmd w of (r, w') \<Rightarrow> (r, (w', tr @ [Exec site cmd r]))))"

definition console_log :: "string \<Rightarrow> ('w, unit) promise" where
  "console_log msg s = (case s of (w, tr) \<Rightarrow> (Inr (), (w, tr @ [ConsoleLog msg])))"

definition console_error :: "js_error \<Rightarrow> 'w state \<Rightarrow> 'w state" where
  "console_error err s = (case s of (w, tr) \<Rightarrow> (w, tr @ [ConsoleError err]))"

text \<open>\<^verbatim>\<open>fs.access(p)\<close> as both handlers use it: resolved or rejected, never an error.\<close>

definition checkFileExists :: "'w sys \<Rightarrow> string \<Rightarrow> ('w, bool) promise" where
  "checkFileExists S filePath s =
     (case s of (w, tr) \<Rightarrow>
        (Inr (fs_access S filePath w), (w, tr @ [Access filePath (fs_access S filePath w)])))"

definition unlink :: "'w sys \<Rightarrow> string \<Rightarrow> ('w, unit) promise" where
  "unlink S filePath s =
     (case s of (w, tr) \<Rightarrow>
        (case fs_unlink S filePath w of (r, w') \<Rightarrow> (r, (w', tr @ [Unlink filePath r]))))"

definition nanoid_call :: "'w sys \<Rightarrow> ('w, string) promise" where
  "nanoid_call S s =
     (case s of (w, tr) \<Rightarrow> (case nanoid S w of (i, w') \<Rightarrow> (Inr i, (w', tr @ [Nanoid i]))))"

section \<open>The handlers of GET /health and GET /src\<close>

definition health :: "response" where
  "health = Send 200 ''OK''"

text \<open>The header \<^verbatim>\<open>auth\<close> of a request, when it has one.\<close>

definition unauthorized :: "string option \<Rightarrow> string \<Rightarrow> bool" where
  "unauthorized authHeader token \<longleftrightarrow> falsy authHeader \<or> authHeader \<noteq> Some token"

definition up_to_date_marker :: "string \<Rightarrow> string" where
  "up_to_date_marker branch = ''Your branch is up to date with 'origin/'' @ branch @ [CHR 0x27]"

subsection \<open>\<^verbatim>\<open>server.js\<close>: the archive is kept beside the working copy\<close>

text \<open>The body of the \<^verbatim>\<open>try\<close> block; it resolves to the path of the archive to send.\<close>

definition server_try :: "'w sys \<Rightarrow> server_consts \<Rightarrow> ('w, string) promise" where
  "server_try S C =
     await (execAsync S Fetch (''git -C '' @ GIT_REPO_PATH C @ '' fetch origin'')) (\<lambda>_.
     await (execAsync S Status (''git -C '' @ GIT_REPO_PATH C @ '' status'')) (\<lambda>statusOutput.
     let isUpToDate = includes_str statusOutput (up_to_date_marker (BRANCH_NAME C)) in
     await (if \<not> isUpToDate
            then await (console_log ''Repo not in sync, pulling...'') (\<lambda>_.
                 await (execAsync S Pull
                   (''git -C '' @ GIT_REPO_PATH C @ '' pull origin '' @ BRANCH_NAME C)) (\<lambda>_.
                 resolve ()))
            else resolve ()) (\<lambda>_.
     await (execAsync S RevParse (''git -C '' @ GIT_REPO_PATH C @ '' rev-parse HEAD''))
       (\<lambda>hashOutput.
     let gitHash = substring0 (trim hashOutput) 7;
         tarFileName = ''src-'' @ gitHash @ ''.tar.gz'';
         tarFilePath = path_join S (GIT_REPO_PATH C) tarFileName in
     await (checkFileExists S tarFilePath) (\<lambda>exist.
     await (if exist
            then console_log ''Tar file already exists, serving...''
            else await (console_log ''Creating tar file...'') (\<lambda>_.
                 await (execAsync S Build
                   (''cd '' @ GIT_REPO_PATH C @ '' && tar -czf '' @ tarFileName @ '' '' @
                    SRC_FOLDER C)) (\<lambda>_.
                 resolve ()))) (\<lambda>_.
     resolve tarFilePath))))))"

definition server_src ::
  "'w sys \<Rightarrow> server_consts \<Rightarrow> string option \<Rightarrow> 'w state \<Rightarrow> response \<times> 'w state" where
  "server_src S C authHeader s =
     (if unauthorized authHeader (TOKEN C) then (Send 401 ''Unauthorized'', s)
      else (case server_try S C s of
              (Inr tarFilePath, s') \<Rightarrow> (Download tarFilePath, s')
            | (Inl err, s') \<Rightarrow> (Send 500 ''Internal Server Error'', console_error err s')))"

subsection \<open>\<^verbatim>\<open>app.js\<close>: a fresh archive in the temporary folder for every request\<close>

definition app_try :: "'w sys \<Rightarrow> app_consts \<Rightarrow> env \<Rightarrow> ('w, string) promise" where
  "app_try S C e =
     (let repoPath = interpolate (e ''GIT_REPO_PATH'') in
     await (execAsync S Fetch (''git -C '' @ repoPath @ '' fetch origin'')) (\<lambda>_.
     await (execAsync S Status (''git -C '' @ repoPath @ '' status'')) (\<lambda>statusOutput.
     let isUpToDate = includes_str statusOutput (up_to_date_marker (BRANCH_NAME C)) in
     await (if \<not> isUpToDate
            then await (console_log ''Repo not in sync, pulling...'') (\<lambda>_.
                 await (execAsync S Pull
                   (''git -C '' @ repoPath @ '' pull origin '' @ BRANCH_NAME C)) (\<lambda>_.
                 resolve ()))
            else resolve ()) (\<lambda>_.
     await (execAsync S RevParse (''git -C '' @ repoPath @ '' rev-parse HEAD''))
       (\<lambda>hashOutput.
     let gitHash = substring0 (trim hashOutput) 7 in
     await (nanoid_call S) (\<lambda>ident.
     let tarFileName = ''src-'' @ gitHash @ ''-'' @ ident @ ''.tar.gz'';
         tarFilePath = path_join S (tempFolder C) tarFileName in
     await (checkFileExists S tarFilePath) (\<lambda>exist.
     await (if exist then unlink S tarFilePath else resolve ()) (\<lambda>_.
     let parentFolder = path_dirname S (SRC_FOLDER C);
         baseFolder = path_basename S (SRC_FOLDER C) in
     await (execAsync S Build
       (''tar -czf '' @ tarFilePath @ '' -C '' @ parentFolder @ '' '' @ baseFolder)) (\<lambda>_.
     resolve tarFilePath)))))))))"

definition app_src ::
  "'w sys \<Rightarrow> app_consts \<Rightarrow> env \<Rightarrow> string option \<Rightarrow> 'w state \<Rightarrow> response \<times> 'w state" where
  "app_src S C e authHeader s =
     (if unauthorized authHeader (TOKEN C) then (Send 401 ''Unauthorized'', s)
      else (case app_try S C e s of
              (Inr tarFilePath, s') \<Rightarrow> (Download tarFilePath, s')
            | (Inl err, s') \<Rightarrow> (Send 500 ''Internal Server Error'', console_error err s')))"

subsection \<open>The running process\<close>

text \<open>
  A running process holds the constants its module captured when it was loaded and the
  current \<^verbatim>\<open>process.env\<close>, which code outside the handler can change between requests.
  The handler of \<^verbatim>\<open>server.js\<close> reads only the constants; the handler of \<^verbatim>\<open>app.js\<close>
  reads \<^verbatim>\<open>process.env.GIT_REPO_PATH\<close> anew for every request.
\<close>

record 'c process =
  module :: 'c
  process_env :: env

definition server_start :: "env \<Rightarrow> nat + server_consts process" where
  "server_start e =
     (case server_load e of Inl code \<Rightarrow> Inl code
      | Inr C \<Rightarrow> Inr \<lparr>module = C, process_env = e\<rparr>)"

definition app_start :: "env \<Rightarrow> string \<Rightarrow> nat + app_consts process" where
  "app_start e tmp =
     (case app_load e tmp of Inl code \<Rightarrow> Inl code
      | Inr C \<Rightarrow> Inr \<lparr>module = C, process_env = e\<rparr>)"

definition setenv :: "string \<Rightarrow> string \<Rightarrow> 'c process \<Rightarrow> 'c process" where
  "setenv key v P = P\<lparr>process_env := (process_env P)(key \<mapsto> v)\<rparr>"

definition server_request ::
  "'w sys \<Rightarrow> server_consts process \<Rightarrow> string option \<Rightarrow> 'w state \<Rightarrow> response \<times> 'w state" where
  "server_request S P authHeader s = server_src S (module P) authHeader s"

definition app_request ::
  "'w sys \<Rightarrow> app_consts process \<Rightarrow> string option \<Rightarrow> 'w state \<Rightarrow> response \<times> 'w state" where
  "app_request S P authHeader s = app_src S (module P) (process_env P) authHeader s"

subsection \<open>\<^verbatim>\<open>server.js\<close>, one suspension point at a time\<close>

text \<open>
  An \<^verbatim>\<open>async\<close> handler runs until its next \<^verbatim>\<open>await\<close>, and other requests run while it
  waits. A task is the place where a request of \<^verbatim>\<open>server.js\<close> waits, with the local
  variables it still needs; a step resumes it until the next \<^verbatim>\<open>await\<close>, the awaited
  operation taking effect at the step that consumes its result.
\<close>

datatype task =
    AtFetch
  | AtStatus
  | AtPull
  | AtRevParse
  | AtAccess string string
  | AtBuild string string
  | Finished response

definition caught :: "js_error \<Rightarrow> 'w state \<Rightarrow> task \<times> 'w state" where
  "caught err s = (Finished (Send 500 ''Internal Server Error''), console_error err s)"

definition server_begin :: "server_consts \<Rightarrow> string option \<Rightarrow> task" where
  "server_begin C authHeader =
     (if unauthorized authHeader (TOKEN C) then Finished (Send 401 ''Unauthorized'')
      else AtFetch)"

fun server_step :: "'w sys \<Rightarrow> server_consts \<Rightarrow> task \<Rightarrow> 'w state \<Rightarrow> task \<times> 'w state" where
  "server_step S C AtFetch s =
     (case execAsync S Fetch (''git -C '' @ GIT_REPO_PATH C @ '' fetch origin'') s of
        (Inl err, s') \<Rightarrow> caught err s'
      | (Inr _, s') \<Rightarrow> (AtStatus, s'))"
| "server_step S C AtStatus s =
     (case execAsync S Status (''git -C '' @ GIT_REPO_PATH C @ '' status'') s of
        (Inl err, s') \<Rightarrow> caught err s'
      | (Inr statusOutput, s') \<Rightarrow>
          (if \<not> includes_str statusOutput (up_to_date_marker (BRANCH_NAME C))
           then (AtPull, snd (console_log ''Repo not in sync, pulling...'' s'))
           else (AtRevParse, s')))"
| "server_step S C AtPull s =
     (case execAsync S Pull
             (''git -C '' @ GIT_REPO_PATH C @ '' pull origin '' @ BRANCH_NAME C) s of
        (Inl err, s') \<Rightarrow> caught err s'
      | (Inr _, s') \<Rightarrow> (AtRevParse, s'))"
| "server_step S C AtRevParse s =
     (case execAsync S RevParse (''git -C '' @ GIT_REPO_PATH C @ '' rev-parse HEAD'') s of
        (Inl err, s') \<Rightarrow> caught err s'
      | (Inr hashOutput, s') \<Rightarrow>
          (let gitHash = substring0 (trim hashOutput) 7;
               tarFileName = ''src-'' @ gitHash @ ''.tar.gz'';
               tarFilePath = path_join S (GIT_REPO_PATH C) tarFileName
           in (AtAccess tarFileName tarFilePath, s')))"
| "server_step S C (AtAccess tarFileName tarFilePath) s =
     (case checkFileExists S tarFilePath s of
        (Inl err, s') \<Rightarrow> caught err s'
      | (Inr exist, s') \<Rightarrow>
          (if exist
           then (Finished (Download tarFilePath),
                 snd (console_log ''Tar file already exists, serving...'' s'))
           else (AtBuild tarFileName tarFilePath,
                 snd (console_log ''Creating tar file...'' s'))))"
| "server_step S C (AtBuild tarFileName tarFilePath) s =
     (case execAsync S Build
             (''cd '' @ GIT_REPO_PATH C @ '' && tar -czf '' @ tarFileName @ '' '' @
              SRC_FOLDER C) s of
        (Inl err, s') \<Rightarrow> caught err s'
      | (Inr _, s') \<Rightarrow> (Finished (Download tarFilePath), s'))"
| "server_step S C (Finished resp) s = (Finished resp, s)"

text \<open>A request served alone: at most six steps, one for each \<^verbatim>\<open>await\<close>.\<close>

fun server_steps :: "nat \<Rightarrow> 'w sys \<Rightarrow> server_consts \<Rightarrow> task \<Rightarrow> 'w state \<Rightarrow> task \<times> 'w state" where
  "server_steps 0 S C t s = (t, s)"
| "server_steps (Suc n) S C t s =
     (case server_step S C t s of (t', s') \<Rightarrow> server_steps n S C t' s')"

text \<open>
  Two requests \<open>A\<close> and \<open>B\<close> in flight on the same world: the schedule says which of
  them the event loop resumes next (\<open>False\<close> for \<open>A\<close>, \<open>True\<close> for \<open>B\<close>).
\<close>

fun interleave ::
  "'w sys \<Rightarrow> server_consts \<Rightarrow> bool list \<Rightarrow> task \<times> task \<times> 'w state \<Rightarrow> task \<times> task \<times> 'w state" where
  "interleave S C [] cfg = cfg"
| "interleave S C (False # sched) (a, b, s) =
     (case server_step S C a s of (a', s') \<Rightarrow> interleave S C sched (a', b, s'))"
| "interleave S C (True # sched) (a, b, s) =
     (case server_step S C b s of (b', s') \<Rightarrow> interleave S C sched (a, b', s'))"

section \<open>Reading a trace\<close>

text \<open>The commands a call site has issued in a trace, in order.\<close>

fun issued :: "call_site \<Rightarrow> event list \<Rightarrow> string list" where
  "issued site [] = []"
| "issued site (Exec st cmd r # tr) =
     (if st = site then cmd # issued site tr else issued site tr)"
| "issued site (ev # tr) = issued site tr"

text \<open>The commands of a trace that were rejected.\<close>

fun failed :: "event list \<Rightarrow> string list" where
  "failed [] = []"
| "failed (Exec st cmd (Inl err) # tr) = cmd # failed tr"
| "failed (ev # tr) = failed tr"

text \<open>The events that follow the first occurrence of an event in a trace.\<close>

definition events_after :: "event \<Rightarrow> event list \<Rightarrow> event list" where
  "events_after ev tr = tl (dropWhile (\<lambda>x. x \<noteq> ev) tr)"

text \<open>
  A command line as the shell splits it into words, for a line whose words are plain and
  separated by spaces. A plain word has no white space and no character the shell treats
  specially, so the shell hands it on as it is.
\<close>

fun split_words :: "string \<Rightarrow> string \<Rightarrow> string list" where
  "split_words w [] = (if w = [] then [] else [rev w])"
| "split_words w (c # cs) =
     (if c = CHR '' ''
      then (if w = [] then split_words [] cs else rev w # split_words [] cs)
      else split_words (c # w) cs)"

definition shell_words :: "string \<Rightarrow> string list" where
  "shell_words cmd = split_words [] cmd"

definition shell_special :: "char list" where
  "shell_special =
     '' |&;<>()$*?[]#~=%{}!'' @ [CHR 0x09, CHR 0x0A, CHR 0x22, CHR 0x27, CHR 0x5C, CHR 0x60]"

definition plain_word :: "string \<Rightarrow> bool" where
  "plain_word s \<longleftrightarrow> s \<noteq> [] \<and> (\<forall>c \<in> set s. c \<notin> set shell_special)"

text \<open>
  What a build command line asks of \<^verbatim>\<open>tar\<close>: the directory it runs from (given with
  \<^verbatim>\<open>-C\<close>, or entered with \<^verbatim>\<open>cd\<close> before) and the members it is to archive, which are all
  the words after the archive name and the directory. \<^verbatim>\<open>tar\<close> names the entries of the
  archive after the members as they are written.
\<close>

definition tar_job :: "string \<Rightarrow> (string \<times> string list) option" where
  "tar_job cmd =
     (case shell_words cmd of
        a # b # c # d # e # rest \<Rightarrow>
          (if a = ''tar'' \<and> b = ''-czf'' \<and> d = ''-C'' then Some (e, rest)
           else if a = ''cd'' \<and> c = ''&&'' \<and> d = ''tar'' \<and> e = ''-czf''
             then Some (b, drop 1 rest)
           else None)
      | _ \<Rightarrow> None)"

section \<open>Properties of a run\<close>

text \<open>
  The synchronisation protocol on the events of one request. The first event is the fetch.
  When the fetch is rejected, neither the status nor the pull is run. When it resolves,
  the status command is the next event, and it is run once. When the status is rejected
  there is no pull. When it resolves with the output \<open>out\<close>: if \<open>out\<close> contains the phrase
  \<^verbatim>\<open>Your branch is up to date with 'origin/<branch>'\<close> there is no pull; if not, the next
  events are the log line and the pull for the branch, and there is no other pull.
\<close>

definition sync_protocol :: "string \<Rightarrow> string \<Rightarrow> event list \<Rightarrow> bool" where
  "sync_protocol repo branch new \<longleftrightarrow>
     (\<exists>r rest. new = Exec Fetch (''git -C '' @ repo @ '' fetch origin'') r # rest \<and>
        (case r of
           Inl err \<Rightarrow> issued Status rest = [] \<and> issued Pull rest = []
         | Inr fetched \<Rightarrow>
             (\<exists>r2 rest2.
                rest = Exec Status (''git -C '' @ repo @ '' status'') r2 # rest2 \<and>
                issued Status rest2 = [] \<and>
                (case r2 of
                   Inl err \<Rightarrow> issued Pull rest2 = []
                 | Inr out \<Rightarrow>
                     (if \<exists>pre post.
                           out = pre @ ''Your branch is up to date with 'origin/'' @ branch @
                                 [CHR 0x27] @ post
                      then issued Pull rest2 = []
                      else (\<exists>r3 rest3.
                              rest2 = ConsoleLog ''Repo not in sync, pulling...'' #
                                      Exec Pull (''git -C '' @ repo @ '' pull origin '' @ branch) r3 #
                                      rest3 \<and>
                              issued Pull rest3 = []))))))"

text \<open>
  A failure is terminal: no call site issues its command twice, and a rejected command
  is the last thing the request does before it logs the error and answers 500.
\<close>

definition terminal_failure :: "response \<Rightarrow> event list \<Rightarrow> bool" where
  "terminal_failure resp new \<longleftrightarrow>
     (\<forall>site. length (issued site new) \<le> 1) \<and>
     (\<forall>site cmd err. Exec site cmd (Inl err) \<in> set new \<longrightarrow>
        resp = Send 500 ''Internal Server Error'' \<and>
        (\<exists>pre. new = pre @ [Exec site cmd (Inl err), ConsoleError err] \<and> failed pre = []))"

text \<open>
  \<open>ident\<close> is what remains of \<open>out\<close> when the white space around it is removed.
\<close>

definition trimmed_identifier :: "string \<Rightarrow> string \<Rightarrow> bool" where
  "trimmed_identifier out ident \<longleftrightarrow>
     (\<exists>pre post. out = pre @ ident @ post \<and>
        (\<forall>c \<in> set pre. isWhiteSpace c) \<and> (\<forall>c \<in> set post. isWhiteSpace c)) \<and>
     (ident \<noteq> [] \<longrightarrow> \<not> isWhiteSpace (hd ident) \<and> \<not> isWhiteSpace (last ident))"

text \<open>
  The archive is keyed by the revision: right after a resolved \<^verbatim>\<open>rev-parse\<close> the handler
  looks for the archive named after the first seven characters of the trimmed output
  (in \<^verbatim>\<open>app.js\<close>, after it has drawn the identifier that completes the name).
\<close>

definition server_keyed :: "'w sys \<Rightarrow> server_consts \<Rightarrow> event list \<Rightarrow> bool" where
  "server_keyed S C new \<longleftrightarrow>
     (\<forall>cmd out ident. Exec RevParse cmd (Inr out) \<in> set new \<and> trimmed_identifier out ident \<longrightarrow>
        (\<exists>b rest. events_after (Exec RevParse cmd (Inr out)) new =
           Access (path_join S (GIT_REPO_PATH C) (''src-'' @ take 7 ident @ ''.tar.gz'')) b #
           rest))"

definition app_keyed :: "'w sys \<Rightarrow> app_consts \<Rightarrow> event list \<Rightarrow> bool" where
  "app_keyed S A new \<longleftrightarrow>
     (\<forall>cmd out ident. Exec RevParse cmd (Inr out) \<in> set new \<and> trimmed_identifier out ident \<longrightarrow>
        (\<exists>i b rest. events_after (Exec RevParse cmd (Inr out)) new =
           Nanoid i #
           Access (path_join S (tempFolder A)
                     (''src-'' @ take 7 ident @ ''-'' @ i @ ''.tar.gz'')) b #
           rest))"

text \<open>
  An archive found for the revision is served as it is: the existence check is the last
  effect of the request but for a log line, no build command is issued, and the answer
  is the download of the file that was found.
\<close>

definition served_from_cache :: "'w sys \<Rightarrow> server_consts \<Rightarrow> response \<Rightarrow> 'w \<Rightarrow> event list \<Rightarrow> bool" where
  "served_from_cache S C resp w' new \<longleftrightarrow>
     (\<forall>p. Access p True \<in> set new \<longrightarrow>
        issued Build new = [] \<and> resp = Download p \<and> fs_access S p w' \<and>
        (\<exists>pre cmd out.
           new = pre @ [Exec RevParse cmd (Inr out), Access p True,
                        ConsoleLog ''Tar file already exists, serving...''] \<and>
           p = path_join S (GIT_REPO_PATH C)
                 (''src-'' @ substring0 (trim out) 7 @ ''.tar.gz'')))"

text \<open>The command each call site of \<^verbatim>\<open>server.js\<close> hands to the shell.\<close>

definition server_commands :: "server_consts \<Rightarrow> event list \<Rightarrow> bool" where
  "server_commands C new \<longleftrightarrow>
     (\<forall>site cmd r. Exec site cmd r \<in> set new \<longrightarrow>
        (case site of
           Fetch \<Rightarrow> cmd = ''git -C '' @ GIT_REPO_PATH C @ '' fetch origin''
         | Status \<Rightarrow> cmd = ''git -C '' @ GIT_REPO_PATH C @ '' status''
         | Pull \<Rightarrow> cmd = ''git -C '' @ GIT_REPO_PATH C @ '' pull origin '' @ BRANCH_NAME C
         | RevParse \<Rightarrow> cmd = ''git -C '' @ GIT_REPO_PATH C @ '' rev-parse HEAD''
         | Build \<Rightarrow>
             (\<exists>c out. Exec RevParse c (Inr out) \<in> set new \<and>
                cmd = ''cd '' @ GIT_REPO_PATH C @ '' && tar -czf '' @
                      (''src-'' @ substring0 (trim out) 7 @ ''.tar.gz'') @ '' '' @
                      SRC_FOLDER C)))"

text \<open>The command each call site of \<^verbatim>\<open>app.js\<close> hands to the shell.\<close>

definition app_commands :: "'w sys \<Rightarrow> app_consts \<Rightarrow> env \<Rightarrow> event list \<Rightarrow> bool" where
  "app_commands S A e new \<longleftrightarrow>
     (\<forall>site cmd r. Exec site cmd r \<in> set new \<longrightarrow>
        (case site of
           Fetch \<Rightarrow> cmd = ''git -C '' @ interpolate (e ''GIT_REPO_PATH'') @ '' fetch origin''
         | Status \<Rightarrow> cmd = ''git -C '' @ interpolate (e ''GIT_REPO_PATH'') @ '' status''
         | Pull \<Rightarrow> cmd = ''git -C '' @ interpolate (e ''GIT_REPO_PATH'') @ '' pull origin '' @
                        BRANCH_NAME A
         | RevParse \<Rightarrow> cmd = ''git -C '' @ interpolate (e ''GIT_REPO_PATH'') @ '' rev-parse HEAD''
         | Build \<Rightarrow>
             (\<exists>c out i. Exec RevParse c (Inr out) \<in> set new \<and> Nanoid i \<in> set new \<and>
                cmd = ''tar -czf '' @
                      path_join S (tempFolder A)
                        (''src-'' @ substring0 (trim out) 7 @ ''-'' @ i @ ''.tar.gz'') @
                      '' -C '' @ path_dirname S (SRC_FOLDER A) @ '' '' @
                      path_basename S (SRC_FOLDER A))))"




section \<open>A scripted world\<close>

text \<open>
  A small world on which the handlers can be evaluated: a working copy at \<^verbatim>\<open>/srv/repo\<close>
  tracking \<^verbatim>\<open>main\<close>, the files that exist, and the identifiers \<^verbatim>\<open>nanoid\<close> will return.
  Its shell knows the commands below and rejects every other one; \<^verbatim>\<open>tar\<close> creates the
  archive file it is asked for. Its path functions agree with \<^verbatim>\<open>path.posix\<close> on paths
  without trailing or repeated slashes.
\<close>

record world =
  files :: "string list"
  head :: string
  origin_head :: string
  ids :: "string list"

definition first_word :: "string \<Rightarrow> string" where
  "first_word s = takeWhile (\<lambda>c. c \<noteq> CHR '' '') s"

definition status_text :: "world \<Rightarrow> string" where
  "status_text w =
     (if head w = origin_head w
      then ''On branch main'' @ [CHR 0x0A] @
           ''Your branch is up to date with 'origin/main'.'' @ [CHR 0x0A]
      else ''On branch main'' @ [CHR 0x0A] @
           ''Your branch is behind 'origin/main' by 1 commit.'' @ [CHR 0x0A])"

definition demo_exec :: "string \<Rightarrow> world \<Rightarrow> (js_error + string) \<times> world" where
  "demo_exec cmd w =
     (if cmd = ''git -C /srv/repo fetch origin'' then (Inr [], w)
      else if cmd = ''git -C /srv/repo status'' then (Inr (status_text w), w)
      else if cmd = ''git -C /srv/repo pull origin main''
        then (Inr ''Fast-forward'', w\<lparr>head := origin_head w\<rparr>)
      else if cmd = ''git -C /srv/repo rev-parse HEAD'' then (Inr (head w @ [CHR 0x0A]), w)
      else if prefix ''cd /srv/repo && tar -czf '' cmd
        then (Inr [], w\<lparr>files := (''/srv/repo/'' @ first_word (drop 25 cmd)) # files w\<rparr>)
      else if prefix ''tar -czf '' cmd
        then (Inr [], w\<lparr>files := first_word (drop 9 cmd) # files w\<rparr>)
      else (Inl (ExecError (''Command failed: '' @ cmd)), w))"

definition demo_unlink :: "string \<Rightarrow> world \<Rightarrow> (js_error + unit) \<times> world" where
  "demo_unlink p w =
     (if p \<in> set (files w) then (Inr (), w\<lparr>files := removeAll p (files w)\<rparr>)
      else (Inl (FsError ''ENOENT''), w))"

definition demo_nanoid :: "world \<Rightarrow> string \<times> world" where
  "demo_nanoid w =
     (case ids w of [] \<Rightarrow> (''V1StGXR8_Z5jdHi6B-myT'', w) | i # rest \<Rightarrow> (i, w\<lparr>ids := rest\<rparr>))"

definition demo_basename :: "string \<Rightarrow> string" where
  "demo_basename p = rev (takeWhile (\<lambda>c. c \<noteq> CHR ''/'') (rev p))"

definition demo_dirname :: "string \<Rightarrow> string" where
  "demo_dirname p =
     (if CHR ''/'' \<notin> set p then ''.''
      else (let d = rev (tl (dropWhile (\<lambda>c. c \<noteq> CHR ''/'') (rev p)))
            in if d = [] then ''/'' else d))"

definition demo_sys :: "world sys" where
  "demo_sys =
     \<lparr>exec = demo_exec,
      fs_access = (\<lambda>p w. p \<in> set (files w)),
      fs_unlink = demo_unlink,
      nanoid = demo_nanoid,
      path_join = (\<lambda>a b. a @ ''/'' @ b),
      path_dirname = demo_dirname,
      path_basename = demo_basename\<rparr>"

definition demo_env :: env where
  "demo_env =
     [''GIT_REPO_PATH'' \<mapsto> ''/srv/repo'', ''BRANCH_NAME'' \<mapsto> ''main'',
      ''SRC_FOLDER'' \<mapsto> ''/srv/repo/src'', ''TOKEN'' \<mapsto> ''s3cret'']"

definition demo_server :: server_consts where
  "demo_server =
     \<lparr>BRANCH_NAME = ''main'', SRC_FOLDER = ''src'', TOKEN = ''s3cret'',
      GIT_REPO_PATH = ''/srv/repo''\<rparr>"

definition demo_app :: app_consts where
  "demo_app =
     \<lparr>BRANCH_NAME = ''main'', SRC_FOLDER = ''/srv/repo/src'', TOKEN = ''s3cret'',
      tempFolder = ''/tmp''\<rparr>"

definition demo_world :: world where
  "demo_world =
     \<lparr>files = [], head = ''9fceb02d0ae598e95dc970b74767f19372d61af8'',
      origin_head = ''9fceb02d0ae598e95dc970b74767f19372d61af8'', ids = [''Uakgb_J5m9g-0JDMbcJqL'']\<rparr>"

text \<open>The same world when origin has moved on.\<close>

definition stale_world :: world where
  "stale_world = demo_world\<lparr>origin_head := ''1a410efbd13591db07496601ebc7a059dd55cfe9''\<rparr>"

section \<open>Running the operations one at a time\<close>

text \<open>
  Each rule below inverts one operation: from what it returned to what it did. A proof
  about a handler follows the \<^verbatim>\<open>try\<close> block one \<^verbatim>\<open>await\<close> at a time.
\<close>

lemma awaitE:
  assumes "await p k s = (r, s'')"
  obtains (rejected) err where "p s = (Inl err, s'')" "r = Inl err"
        | (resolved) v s' where "p s = (Inr v, s')" "k v s' = (r, s'')"
  using assms by (auto simp: await_def split: prod.splits sum.splits)

lemma execAsyncE:
  assumes "execAsync S site cmd (w, tr) = (r, s')"
  obtains w' where "exec S cmd w = (r, w')" "s' = (w', tr @ [Exec site cmd r])"
  using assms by (auto simp: execAsync_def split: prod.splits)

lemma console_logE:
  assumes "console_log msg (w, tr) = (r, s')"
  obtains "r = Inr ()" "s' = (w, tr @ [ConsoleLog msg])"
  using assms by (auto simp: console_log_def)

lemma checkFileExistsE:
  assumes "checkFileExists S p (w, tr) = (r, s')"
  obtains "r = Inr (fs_access S p w)" "s' = (w, tr @ [Access p (fs_access S p w)])"
  using assms by (auto simp: checkFileExists_def)

lemma unlinkE:
  assumes "unlink S p (w, tr) = (r, s')"
  obtains w' where "fs_unlink S p w = (r, w')" "s' = (w', tr @ [Unlink p r])"
  using assms by (auto simp: unlink_def split: prod.splits)

lemma nanoid_callE:
  assumes "nanoid_call S (w, tr) = (r, s')"
  obtains i w' where "nanoid S w = (i, w')" "r = Inr i" "s' = (w', tr @ [Nanoid i])"
  using assms by (auto simp: nanoid_call_def split: prod.splits)

lemma resolveE:
  assumes "resolve v s = (r, s')"
  obtains "r = Inr v" "s' = s"
  using assms by (auto simp: resolve_def)

lemmas operationE =
  awaitE execAsyncE console_logE checkFileExistsE unlinkE nanoid_callE resolveE

text \<open>A handler answers 401 at once, or runs its \<^verbatim>\<open>try\<close> block and answers from its outcome.\<close>

lemma server_srcE:
  assumes "server_src S C authHeader s = (resp, s'')"
  obtains (refused) "unauthorized authHeader (TOKEN C)" "resp = Send 401 ''Unauthorized''" "s'' = s"
        | (sent) p where "\<not> unauthorized authHeader (TOKEN C)"
            "server_try S C s = (Inr p, s'')" "resp = Download p"
        | (caught) err w' tr' where "\<not> unauthorized authHeader (TOKEN C)"
            "server_try S C s = (Inl err, (w', tr'))" "resp = Send 500 ''Internal Server Error''"
            "s'' = (w', tr' @ [ConsoleError err])"
  using assms
  by (auto simp: server_src_def console_error_def split: if_splits prod.splits sum.splits)

lemma app_srcE:
  assumes "app_src S C e authHeader s = (resp, s'')"
  obtains (refused) "unauthorized authHeader (TOKEN C)" "resp = Send 401 ''Unauthorized''" "s'' = s"
        | (sent) p where "\<not> unauthorized authHeader (TOKEN C)"
            "app_try S C e s = (Inr p, s'')" "resp = Download p"
        | (caught) err w' tr' where "\<not> unauthorized authHeader (TOKEN C)"
            "app_try S C e s = (Inl err, (w', tr'))" "resp = Send 500 ''Internal Server Error''"
            "s'' = (w', tr' @ [ConsoleError err])"
  using assms
  by (auto simp: app_src_def console_error_def split: if_splits prod.splits sum.splits)

section \<open>Requests without the token\<close>

text \<open>
  C1. A request to GET /src whose \<^verbatim>\<open>auth\<close> header is absent, or is not the configured
  token, is answered 401 with the body \<^verbatim>\<open>Unauthorized\<close>, in both variants; the state
  the handler returns is the one it was given: the world is untouched and the trace has
  no new event, so no command was issued and no file was looked at.
\<close>

theorem unauthorized_request_has_no_effect:
  "(authHeader \<noteq> Some (TOKEN C) \<longrightarrow>
      server_src S C authHeader s = (Send 401 ''Unauthorized'', s)) \<and>
   (authHeader \<noteq> Some (TOKEN A) \<longrightarrow>
      app_src S A e authHeader s = (Send 401 ''Unauthorized'', s))"
  by (simp add: server_src_def app_src_def unauthorized_def)

theorem unauthorized_request_has_no_effect_witness:
  "Some ''guess'' \<noteq> Some (TOKEN demo_server) \<and>
   server_src demo_sys demo_server (Some ''guess'') (demo_world, []) =
     (Send 401 ''Unauthorized'', (demo_world, [])) \<and>
   None \<noteq> Some (TOKEN demo_app) \<and>
   app_src demo_sys demo_app demo_env None (demo_world, []) =
     (Send 401 ''Unauthorized'', (demo_world, []))"
  using unauthorized_request_has_no_effect
          [of "Some ''guess''" demo_server demo_sys "(demo_world, [])"]
        unauthorized_request_has_no_effect
          [of None _ demo_sys "(demo_world, [])" demo_app demo_env]
  by (simp add: demo_server_def demo_app_def)

section \<open>A working copy that cannot be reached\<close>

text \<open>
  C8. When the first command of an authenticated request, the fetch, is rejected (as git
  does for a path that is no working copy), the answer is 500 with the body
  \<^verbatim>\<open>Internal Server Error\<close>; the handler logs the error and does nothing else: the world
  it returns is the one the failed fetch left, so the request creates no archive.
\<close>

theorem failed_fetch_answers_500:
  "(\<not> unauthorized authHeader (TOKEN C) \<and>
    exec S (''git -C '' @ GIT_REPO_PATH C @ '' fetch origin'') w = (Inl err, w1) \<longrightarrow>
      server_src S C authHeader (w, tr) =
        (Send 500 ''Internal Server Error'',
         (w1, tr @ [Exec Fetch (''git -C '' @ GIT_REPO_PATH C @ '' fetch origin'') (Inl err),
                    ConsoleError err]))) \<and>
   (\<not> unauthorized authHeader (TOKEN A) \<and>
    exec S (''git -C '' @ interpolate (e ''GIT_REPO_PATH'') @ '' fetch origin'') w =
      (Inl err, w1) \<longrightarrow>
      app_src S A e authHeader (w, tr) =
        (Send 500 ''Internal Server Error'',
         (w1, tr @ [Exec Fetch (''git -C '' @ interpolate (e ''GIT_REPO_PATH'') @
                                '' fetch origin'') (Inl err),
                    ConsoleError err])))"
  by (simp add: server_src_def server_try_def app_src_def app_try_def await_def
      execAsync_def console_error_def Let_def)

theorem failed_fetch_answers_500_witness:
  "\<not> unauthorized (Some ''s3cret'') (TOKEN demo_server) \<and>
   exec demo_sys ''git -C /nonexistent/path fetch origin'' demo_world =
     (Inl (ExecError ''Command failed: git -C /nonexistent/path fetch origin''), demo_world) \<and>
   server_src demo_sys (demo_server\<lparr>GIT_REPO_PATH := ''/nonexistent/path''\<rparr>) (Some ''s3cret'')
       (demo_world, []) =
     (Send 500 ''Internal Server Error'',
      (demo_world,
       [Exec Fetch ''git -C /nonexistent/path fetch origin''
          (Inl (ExecError ''Command failed: git -C /nonexistent/path fetch origin'')),
        ConsoleError (ExecError ''Command failed: git -C /nonexistent/path fetch origin'')])) \<and>
   app_src demo_sys demo_app (demo_env(''GIT_REPO_PATH'' \<mapsto> ''/nonexistent/path''))
       (Some ''s3cret'') (demo_world, []) =
     (Send 500 ''Internal Server Error'',
      (demo_world,
       [Exec Fetch ''git -C /nonexistent/path fetch origin''
          (Inl (ExecError ''Command failed: git -C /nonexistent/path fetch origin'')),
        ConsoleError (ExecError ''Command failed: git -C /nonexistent/path fetch origin'')]))"
  using failed_fetch_answers_500
          [where authHeader = "Some ''s3cret''"
             and C = "demo_server\<lparr>GIT_REPO_PATH := ''/nonexistent/path''\<rparr>"
             and S = demo_sys and w = demo_world and ?w1.0 = demo_world and tr = "[]"
             and err = "ExecError ''Command failed: git -C /nonexistent/path fetch origin''"
             and A = demo_app and e = "demo_env(''GIT_REPO_PATH'' \<mapsto> ''/nonexistent/path'')"]
  by (simp add: demo_server_def demo_app_def demo_sys_def demo_exec_def unauthorized_def
      falsy_def interpolate_def)

section \<open>Facts about traces and strings\<close>

lemma issued_append [simp]: "issued site (xs @ ys) = issued site xs @ issued site ys"
  by (induction site xs rule: issued.induct) auto

lemma failed_append [simp]: "failed (xs @ ys) = failed xs @ failed ys"
  by (induction xs rule: failed.induct) auto

lemma dropWhile_all: "\<forall>c \<in> set xs. P c \<Longrightarrow> dropWhile P (xs @ ys) = dropWhile P ys"
  by (induction xs) auto

text \<open>\<open>includes_str\<close> is containment as a contiguous run.\<close>

lemma includes_str_sublist: "includes_str s t \<longleftrightarrow> sublist t s"
  by (induction s) (auto simp: sublist_Cons_right)

lemma includes_str_iff: "includes_str s t \<longleftrightarrow> (\<exists>pre post. s = pre @ t @ post)"
  by (simp add: includes_str_sublist sublist_def)

text \<open>\<open>trim\<close> returns the trimmed identifier, and nothing else is one.\<close>

lemma trim_unique:
  assumes "trimmed_identifier out ident"
  shows "trim out = ident"
proof -
  from assms obtain pre post where out: "out = pre @ ident @ post"
    and pre: "\<forall>c \<in> set pre. isWhiteSpace c" and post: "\<forall>c \<in> set post. isWhiteSpace c"
    and ends: "ident \<noteq> [] \<longrightarrow> \<not> isWhiteSpace (hd ident) \<and> \<not> isWhiteSpace (last ident)"
    unfolding trimmed_identifier_def by blast
  show ?thesis
  proof (cases "ident = []")
    case True
    with pre post out have "\<forall>c \<in> set out. isWhiteSpace c"
      by auto
    then have d: "dropWhile isWhiteSpace out = []"
      by (simp only: dropWhile_eq_Nil_conv)
    show ?thesis unfolding trim_def d using True by simp
  next
    case False
    with ends have h: "\<not> isWhiteSpace (hd ident)" and l: "\<not> isWhiteSpace (last ident)"
      by simp_all
    from False h have "dropWhile isWhiteSpace (ident @ post) = ident @ post"
      by (cases ident) simp_all
    with pre out have d1: "dropWhile isWhiteSpace out = ident @ post"
      by (simp add: dropWhile_all)
    from post have p': "\<forall>c \<in> set (rev post). isWhiteSpace c" by simp
    from False l have "dropWhile isWhiteSpace (rev ident) = rev ident"
      by (cases ident rule: rev_cases) simp_all
    with p' have "dropWhile isWhiteSpace (rev (ident @ post)) = rev ident"
      by (simp add: dropWhile_all)
    with d1 show ?thesis by (simp add: trim_def)
  qed
qed

lemma trim_trimmed: "trimmed_identifier out (trim out)"
proof -
  let ?a = "dropWhile isWhiteSpace out"
  let ?post = "rev (takeWhile isWhiteSpace (rev ?a))"
  have a: "out = takeWhile isWhiteSpace out @ ?a" by simp
  have "rev (takeWhile isWhiteSpace (rev ?a) @ dropWhile isWhiteSpace (rev ?a)) = ?a"
    by (simp only: takeWhile_dropWhile_id rev_rev_ident)
  then have b: "?a = trim out @ ?post"
    by (simp only: rev_append trim_def)
  have split: "out = takeWhile isWhiteSpace out @ trim out @ ?post"
    using a b by metis
  have pre: "\<forall>c \<in> set (takeWhile isWhiteSpace out). isWhiteSpace c"
    by (auto dest: set_takeWhileD)
  have post: "\<forall>c \<in> set ?post. isWhiteSpace c"
    by (auto dest: set_takeWhileD)
  have ends: "trim out \<noteq> [] \<longrightarrow> \<not> isWhiteSpace (hd (trim out)) \<and> \<not> isWhiteSpace (last (trim out))"
  proof
    assume ne: "trim out \<noteq> []"
    then have ne': "dropWhile isWhiteSpace (rev ?a) \<noteq> []" by (simp add: trim_def)
    then have l: "\<not> isWhiteSpace (hd (dropWhile isWhiteSpace (rev ?a)))"
      by (rule hd_dropWhile)
    have "last (trim out) = hd (dropWhile isWhiteSpace (rev ?a))"
      using ne' by (simp add: trim_def last_rev)
    with l have L: "\<not> isWhiteSpace (last (trim out))" by simp
    from ne b have "?a \<noteq> []" by (metis Nil_is_append_conv)
    then have "\<not> isWhiteSpace (hd ?a)" by (rule hd_dropWhile)
    moreover from b ne have "hd ?a = hd (trim out)" by (metis hd_append2)
    ultimately show "\<not> isWhiteSpace (hd (trim out)) \<and> \<not> isWhiteSpace (last (trim out))"
      using L by simp
  qed
  show ?thesis unfolding trimmed_identifier_def using split pre post ends by blast
qed

section \<open>Synchronisation\<close>

text \<open>The test the handlers make on the status output, spelled out.\<close>

lemma includes_marker:
  "includes_str out (up_to_date_marker branch) \<longleftrightarrow>
     (\<exists>pre post. out = pre @ ''Your branch is up to date with 'origin/'' @ branch @
                         [CHR 0x27] @ post)"
  by (simp add: includes_str_iff up_to_date_marker_def)

text \<open>A fetch alone is not the protocol: after a resolved fetch the status must be run.\<close>

lemma sync_protocol_requires_status:
  "\<not> sync_protocol repo branch [Exec Fetch (''git -C '' @ repo @ '' fetch origin'') (Inr out)]"
  by (simp add: sync_protocol_def)

lemma server_src_sync:
  assumes "server_src S C authHeader (w, tr) = (resp, (w', tr'))"
    and "\<not> unauthorized authHeader (TOKEN C)"
  shows "\<exists>new. tr' = tr @ new \<and> sync_protocol (GIT_REPO_PATH C) (BRANCH_NAME C) new"
  using assms
  apply (elim server_srcE)
  unfolding server_try_def Let_def sync_protocol_def includes_marker [symmetric]
    apply (auto split: if_splits elim!: operationE)
  done

lemma app_src_sync:
  assumes "app_src S A e authHeader (w, tr) = (resp, (w', tr'))"
    and "\<not> unauthorized authHeader (TOKEN A)"
  shows "\<exists>new. tr' = tr @ new \<and>
           sync_protocol (interpolate (e ''GIT_REPO_PATH'')) (BRANCH_NAME A) new"
  using assms
  apply (elim app_srcE)
  unfolding app_try_def Let_def sync_protocol_def includes_marker [symmetric]
    apply (auto split: if_splits elim!: operationE)
  done

text \<open>
  C4. An authenticated request first issues the fetch from origin. When the fetch has
  resolved, the next command is the status, run once; when the status has resolved, the
  pull for the configured branch is issued if and only if its output does not contain the
  phrase \<^verbatim>\<open>Your branch is up to date with 'origin/<BRANCH_NAME>'\<close>, and then it is the
  next command. With the phrase present, or without a resolved status, no pull is issued.
  Both variants.
\<close>

theorem fetch_then_pull_iff_marker_absent:
  "(\<not> unauthorized authHeader (TOKEN C) \<and>
    server_src S C authHeader (w, tr) = (resp, (w', tr')) \<longrightarrow>
      (\<exists>new. tr' = tr @ new \<and> sync_protocol (GIT_REPO_PATH C) (BRANCH_NAME C) new)) \<and>
   (\<not> unauthorized authHeader (TOKEN A) \<and>
    app_src S A e authHeader (w, tr) = (resp, (w', tr')) \<longrightarrow>
      (\<exists>new. tr' = tr @ new \<and>
         sync_protocol (interpolate (e ''GIT_REPO_PATH'')) (BRANCH_NAME A) new))"
  using server_src_sync [of S C authHeader w tr resp w' tr']
    app_src_sync [of S A e authHeader w tr resp w' tr']
  by blast

theorem fetch_then_pull_iff_marker_absent_witness:
  "\<not> unauthorized (Some ''s3cret'') (TOKEN demo_server) \<and>
   issued Pull (snd (snd (server_src demo_sys demo_server (Some ''s3cret'') (stale_world, [])))) =
     [''git -C /srv/repo pull origin main''] \<and>
   sync_protocol ''/srv/repo'' ''main''
     (snd (snd (server_src demo_sys demo_server (Some ''s3cret'') (stale_world, [])))) \<and>
   \<not> unauthorized (Some ''s3cret'') (TOKEN demo_app) \<and>
   issued Pull (snd (snd (app_src demo_sys demo_app demo_env (Some ''s3cret'') (demo_world, [])))) =
     [] \<and>
   sync_protocol ''/srv/repo'' ''main''
     (snd (snd (app_src demo_sys demo_app demo_env (Some ''s3cret'') (demo_world, []))))"
proof -
  let ?run = "server_src demo_sys demo_server (Some ''s3cret'') (stale_world, [])"
  let ?run' = "app_src demo_sys demo_app demo_env (Some ''s3cret'') (demo_world, [])"
  have auth: "\<not> unauthorized (Some ''s3cret'') (TOKEN demo_server)"
    "\<not> unauthorized (Some ''s3cret'') (TOKEN demo_app)"
    by code_simp+
  have pulls: "issued Pull (snd (snd ?run)) = [''git -C /srv/repo pull origin main'']"
    "issued Pull (snd (snd ?run')) = []"
    by code_simp+
  have vals: "GIT_REPO_PATH demo_server = ''/srv/repo''" "BRANCH_NAME demo_server = ''main''"
    "interpolate (demo_env ''GIT_REPO_PATH'') = ''/srv/repo''" "BRANCH_NAME demo_app = ''main''"
    by code_simp+
  from fetch_then_pull_iff_marker_absent
         [where authHeader = "Some ''s3cret''" and C = demo_server and S = demo_sys
            and w = stale_world and tr = "[]" and resp = "fst ?run" and w' = "fst (snd ?run)"
            and tr' = "snd (snd ?run)"]
  have "sync_protocol ''/srv/repo'' ''main'' (snd (snd ?run))"
    using auth vals by simp
  moreover
  from fetch_then_pull_iff_marker_absent
         [where authHeader = "Some ''s3cret''" and A = demo_app and S = demo_sys
            and e = demo_env
            and w = demo_world and tr = "[]" and resp = "fst ?run'" and w' = "fst (snd ?run')"
            and tr' = "snd (snd ?run')"]
  have "sync_protocol ''/srv/repo'' ''main'' (snd (snd ?run'))"
    using auth vals by simp
  ultimately show ?thesis using auth pulls by simp
qed

section \<open>Failures\<close>

lemma server_src_failure:
  assumes "server_src S C authHeader (w, tr) = (resp, (w', tr'))"
  shows "\<exists>new. tr' = tr @ new \<and> terminal_failure resp new"
  using assms
  apply (elim server_srcE)
  unfolding server_try_def Let_def terminal_failure_def
    apply (auto split: if_splits elim!: operationE)
  done

lemma app_src_failure:
  assumes "app_src S A e authHeader (w, tr) = (resp, (w', tr'))"
  shows "\<exists>new. tr' = tr @ new \<and> terminal_failure resp new"
  using assms
  apply (elim app_srcE)
  unfolding app_try_def Let_def terminal_failure_def
    apply (auto split: if_splits elim!: operationE)
  done

text \<open>
  C5. When a command of a request is rejected (the fetch, the status, the pull, the
  revision resolution or the archive build), the answer is 500 with the fixed body
  \<^verbatim>\<open>Internal Server Error\<close>, whatever the error; the error goes to the log, as the last
  event of the request, right after the rejected command; and no call site issues its
  command more than once, so nothing is retried. Both variants.
\<close>

theorem failure_is_terminal:
  "(server_src S C authHeader (w, tr) = (resp, (w', tr')) \<longrightarrow>
      (\<exists>new. tr' = tr @ new \<and> terminal_failure resp new)) \<and>
   (app_src S A e authHeader (w, tr) = (resp, (w', tr')) \<longrightarrow>
      (\<exists>new. tr' = tr @ new \<and> terminal_failure resp new))"
  using server_src_failure [of S C authHeader w tr resp w' tr']
    app_src_failure [of S A e authHeader w tr resp w' tr']
  by blast

theorem failure_is_terminal_witness:
  "Exec Pull ''git -C /srv/repo pull origin dev''
      (Inl (ExecError ''Command failed: git -C /srv/repo pull origin dev''))
     \<in> set (snd (snd (server_src demo_sys (demo_server\<lparr>BRANCH_NAME := ''dev''\<rparr>)
                         (Some ''s3cret'') (demo_world, [])))) \<and>
   terminal_failure
     (fst (server_src demo_sys (demo_server\<lparr>BRANCH_NAME := ''dev''\<rparr>)
             (Some ''s3cret'') (demo_world, [])))
     (snd (snd (server_src demo_sys (demo_server\<lparr>BRANCH_NAME := ''dev''\<rparr>)
                  (Some ''s3cret'') (demo_world, [])))) \<and>
   Exec Pull ''git -C /srv/repo pull origin dev''
      (Inl (ExecError ''Command failed: git -C /srv/repo pull origin dev''))
     \<in> set (snd (snd (app_src demo_sys (demo_app\<lparr>BRANCH_NAME := ''dev''\<rparr>) demo_env
                         (Some ''s3cret'') (demo_world, [])))) \<and>
   terminal_failure
     (fst (app_src demo_sys (demo_app\<lparr>BRANCH_NAME := ''dev''\<rparr>) demo_env
             (Some ''s3cret'') (demo_world, [])))
     (snd (snd (app_src demo_sys (demo_app\<lparr>BRANCH_NAME := ''dev''\<rparr>) demo_env
                  (Some ''s3cret'') (demo_world, []))))"
proof -
  let ?run = "server_src demo_sys (demo_server\<lparr>BRANCH_NAME := ''dev''\<rparr>)
                (Some ''s3cret'') (demo_world, [])"
  let ?run' = "app_src demo_sys (demo_app\<lparr>BRANCH_NAME := ''dev''\<rparr>) demo_env
                 (Some ''s3cret'') (demo_world, [])"
  have rejected:
    "Exec Pull ''git -C /srv/repo pull origin dev''
        (Inl (ExecError ''Command failed: git -C /srv/repo pull origin dev''))
       \<in> set (snd (snd ?run))"
    "Exec Pull ''git -C /srv/repo pull origin dev''
        (Inl (ExecError ''Command failed: git -C /srv/repo pull origin dev''))
       \<in> set (snd (snd ?run'))"
    by code_simp+
  from failure_is_terminal
         [where S = demo_sys and C = "demo_server\<lparr>BRANCH_NAME := ''dev''\<rparr>"
            and authHeader = "Some ''s3cret''" and w = demo_world and tr = "[]"
            and resp = "fst ?run" and w' = "fst (snd ?run)" and tr' = "snd (snd ?run)"]
  have "terminal_failure (fst ?run) (snd (snd ?run))"
    by simp
  moreover
  from failure_is_terminal
         [where S = demo_sys and A = "demo_app\<lparr>BRANCH_NAME := ''dev''\<rparr>" and e = demo_env
            and authHeader = "Some ''s3cret''" and w = demo_world and tr = "[]"
            and resp = "fst ?run'" and w' = "fst (snd ?run')" and tr' = "snd (snd ?run')"]
  have "terminal_failure (fst ?run') (snd (snd ?run'))"
    by simp
  ultimately show ?thesis using rejected by simp
qed

section \<open>The revision and the archive\<close>

lemma server_src_keyed:
  assumes "server_src S C authHeader (w, tr) = (resp, (w', tr'))"
  shows "\<exists>new. tr' = tr @ new \<and>
     (\<forall>cmd out. Exec RevParse cmd (Inr out) \<in> set new \<longrightarrow>
        (\<exists>b rest. events_after (Exec RevParse cmd (Inr out)) new =
           Access (path_join S (GIT_REPO_PATH C) (''src-'' @ take 7 (trim out) @ ''.tar.gz'')) b #
           rest))"
  using assms
  apply (elim server_srcE)
  unfolding server_try_def Let_def substring0_def events_after_def
    apply (auto split: if_splits elim!: operationE)
       apply blast+
  done

lemma app_src_keyed:
  assumes "app_src S A e authHeader (w, tr) = (resp, (w', tr'))"
  shows "\<exists>new. tr' = tr @ new \<and>
     (\<forall>cmd out. Exec RevParse cmd (Inr out) \<in> set new \<longrightarrow>
        (\<exists>i b rest. events_after (Exec RevParse cmd (Inr out)) new =
           Nanoid i #
           Access (path_join S (tempFolder A)
                     (''src-'' @ take 7 (trim out) @ ''-'' @ i @ ''.tar.gz'')) b #
           rest))"
  using assms
  apply (elim app_srcE)
  unfolding app_try_def Let_def substring0_def events_after_def
    apply (auto split: if_splits elim!: operationE)
       apply blast+
  done

text \<open>
  C6. The revision that names the archive is the first seven characters of the full HEAD
  identifier, that is of what \<^verbatim>\<open>rev-parse\<close> printed without the white space around it:
  right after a resolved \<^verbatim>\<open>rev-parse\<close> the handler looks for the archive of that name
  (\<^verbatim>\<open>app.js\<close> first draws the identifier that completes the name). Nothing comes between
  the two: the name is cut at seven characters and never checked against another revision.
\<close>

theorem archive_keyed_by_seven_characters:
  "(server_src S C authHeader (w, tr) = (resp, (w', tr')) \<longrightarrow>
      (\<exists>new. tr' = tr @ new \<and> server_keyed S C new)) \<and>
   (app_src S A e authHeader (w, tr) = (resp, (w', tr')) \<longrightarrow>
      (\<exists>new. tr' = tr @ new \<and> app_keyed S A new))"
  using server_src_keyed [of S C authHeader w tr resp w' tr']
    app_src_keyed [of S A e authHeader w tr resp w' tr']
  unfolding server_keyed_def app_keyed_def
  by (metis trim_unique)

theorem archive_keyed_by_seven_characters_witness:
  "Exec RevParse ''git -C /srv/repo rev-parse HEAD''
      (Inr (''9fceb02d0ae598e95dc970b74767f19372d61af8'' @ [CHR 0x0A]))
     \<in> set (snd (snd (server_src demo_sys demo_server (Some ''s3cret'') (demo_world, [])))) \<and>
   trimmed_identifier (''9fceb02d0ae598e95dc970b74767f19372d61af8'' @ [CHR 0x0A])
     ''9fceb02d0ae598e95dc970b74767f19372d61af8'' \<and>
   Access ''/srv/repo/src-9fceb02.tar.gz'' False
     \<in> set (snd (snd (server_src demo_sys demo_server (Some ''s3cret'') (demo_world, [])))) \<and>
   server_keyed demo_sys demo_server
     (snd (snd (server_src demo_sys demo_server (Some ''s3cret'') (demo_world, [])))) \<and>
   Access ''/tmp/src-9fceb02-Uakgb_J5m9g-0JDMbcJqL.tar.gz'' False
     \<in> set (snd (snd (app_src demo_sys demo_app demo_env (Some ''s3cret'') (demo_world, [])))) \<and>
   app_keyed demo_sys demo_app
     (snd (snd (app_src demo_sys demo_app demo_env (Some ''s3cret'') (demo_world, []))))"
proof -
  let ?run = "server_src demo_sys demo_server (Some ''s3cret'') (demo_world, [])"
  let ?run' = "app_src demo_sys demo_app demo_env (Some ''s3cret'') (demo_world, [])"
  have events:
    "Exec RevParse ''git -C /srv/repo rev-parse HEAD''
        (Inr (''9fceb02d0ae598e95dc970b74767f19372d61af8'' @ [CHR 0x0A])) \<in> set (snd (snd ?run))"
    "Access ''/srv/repo/src-9fceb02.tar.gz'' False \<in> set (snd (snd ?run))"
    "Access ''/tmp/src-9fceb02-Uakgb_J5m9g-0JDMbcJqL.tar.gz'' False \<in> set (snd (snd ?run'))"
    by code_simp+
  have "trim (''9fceb02d0ae598e95dc970b74767f19372d61af8'' @ [CHR 0x0A]) =
          ''9fceb02d0ae598e95dc970b74767f19372d61af8''"
    by code_simp
  with trim_trimmed [of "''9fceb02d0ae598e95dc970b74767f19372d61af8'' @ [CHR 0x0A]"]
  have ident: "trimmed_identifier (''9fceb02d0ae598e95dc970b74767f19372d61af8'' @ [CHR 0x0A])
                 ''9fceb02d0ae598e95dc970b74767f19372d61af8''"
    by simp
  from archive_keyed_by_seven_characters
         [where S = demo_sys and C = demo_server and authHeader = "Some ''s3cret''"
            and w = demo_world and tr = "[]"
            and resp = "fst ?run" and w' = "fst (snd ?run)" and tr' = "snd (snd ?run)"]
  have "server_keyed demo_sys demo_server (snd (snd ?run))"
    by simp
  moreover
  from archive_keyed_by_seven_characters
         [where S = demo_sys and A = demo_app and e = demo_env and authHeader = "Some ''s3cret''"
            and w = demo_world and tr = "[]"
            and resp = "fst ?run'" and w' = "fst (snd ?run')" and tr' = "snd (snd ?run')"]
  have "app_keyed demo_sys demo_app (snd (snd ?run'))"
    by simp
  ultimately show ?thesis using events ident by simp
qed

lemma server_src_cache:
  assumes "server_src S C authHeader (w, tr) = (resp, (w', tr'))"
  shows "\<exists>new. tr' = tr @ new \<and> served_from_cache S C resp w' new"
  using assms
  apply (elim server_srcE)
  unfolding server_try_def Let_def served_from_cache_def
    apply (auto split: if_splits elim!: operationE)
  done

text \<open>
  C3. In \<^verbatim>\<open>server.js\<close> the archive of a revision is the file \<^verbatim>\<open>src-<revision>.tar.gz\<close>
  in the working copy. When the existence check of a request finds that file, the request
  issues no build command, does nothing more to the world, and answers with the download
  of the file it found, which is still there when the handler returns.
\<close>

theorem existing_archive_is_served_unbuilt:
  "server_src S C authHeader (w, tr) = (resp, (w', tr')) \<longrightarrow>
     (\<exists>new. tr' = tr @ new \<and> served_from_cache S C resp w' new)"
  using server_src_cache [of S C authHeader w tr resp w' tr']
  by blast

text \<open>
  The witness serves two requests one after the other: the first one builds the archive,
  the second one finds it, and the whole trace has one build command.
\<close>

theorem existing_archive_is_served_unbuilt_witness:
  "Access ''/srv/repo/src-9fceb02.tar.gz'' True
     \<in> set (snd (snd (server_src demo_sys demo_server (Some ''s3cret'')
                         (snd (server_src demo_sys demo_server (Some ''s3cret'')
                                 (demo_world, [])))))) \<and>
   issued Build
     (snd (snd (server_src demo_sys demo_server (Some ''s3cret'')
                  (snd (server_src demo_sys demo_server (Some ''s3cret'')
                          (demo_world, [])))))) =
     [''cd /srv/repo && tar -czf src-9fceb02.tar.gz src''] \<and>
   (\<exists>new. snd (snd (server_src demo_sys demo_server (Some ''s3cret'')
                      (snd (server_src demo_sys demo_server (Some ''s3cret'')
                              (demo_world, []))))) =
           snd (snd (server_src demo_sys demo_server (Some ''s3cret'') (demo_world, []))) @ new \<and>
      served_from_cache demo_sys demo_server (Download ''/srv/repo/src-9fceb02.tar.gz'')
        (fst (snd (server_src demo_sys demo_server (Some ''s3cret'')
                     (snd (server_src demo_sys demo_server (Some ''s3cret'')
                             (demo_world, []))))))
        new)"
proof -
  let ?first = "server_src demo_sys demo_server (Some ''s3cret'') (demo_world, [])"
  let ?second = "server_src demo_sys demo_server (Some ''s3cret'') (snd ?first)"
  have found: "Access ''/srv/repo/src-9fceb02.tar.gz'' True \<in> set (snd (snd ?second))"
    and builds: "issued Build (snd (snd ?second)) =
                   [''cd /srv/repo && tar -czf src-9fceb02.tar.gz src'']"
    and resp: "fst ?second = Download ''/srv/repo/src-9fceb02.tar.gz''"
    by code_simp+
  from existing_archive_is_served_unbuilt
         [where S = demo_sys and C = demo_server and authHeader = "Some ''s3cret''"
            and w = "fst (snd ?first)" and tr = "snd (snd ?first)"
            and resp = "fst ?second" and w' = "fst (snd ?second)" and tr' = "snd (snd ?second)"]
  have "\<exists>new. snd (snd ?second) = snd (snd ?first) @ new \<and>
          served_from_cache demo_sys demo_server (fst ?second) (fst (snd ?second)) new"
    by simp
  with found builds resp show ?thesis by simp
qed

section \<open>The command strings\<close>

lemma server_src_commands:
  assumes "server_src S C authHeader (w, tr) = (resp, (w', tr'))"
  shows "\<exists>new. tr' = tr @ new \<and> server_commands C new"
  using assms
  apply (elim server_srcE)
  unfolding server_try_def Let_def server_commands_def
    apply (auto split: if_splits call_site.splits elim!: operationE)
  done

lemma app_src_commands:
  assumes "app_src S A e authHeader (w, tr) = (resp, (w', tr'))"
  shows "\<exists>new. tr' = tr @ new \<and> app_commands S A e new"
  using assms
  apply (elim app_srcE)
  unfolding app_try_def Let_def app_commands_def
    apply (auto split: if_splits call_site.splits elim!: operationE)
  done

text \<open>
  C9, as the code has it. Every command a handler hands to the shell is its template with
  the values put in as they are, nothing quoted or escaped: the working-copy path, the
  branch name and the archive name made from the revision. In \<^verbatim>\<open>server.js\<close> the source
  folder goes in as configured. In \<^verbatim>\<open>app.js\<close> the values of the build command are the
  archive path and what \<^verbatim>\<open>path.dirname\<close> and \<^verbatim>\<open>path.basename\<close> return for the source
  folder, put in as they are too.
\<close>

theorem commands_are_interpolated_verbatim:
  "(server_src S C authHeader (w, tr) = (resp, (w', tr')) \<longrightarrow>
      (\<exists>new. tr' = tr @ new \<and> server_commands C new)) \<and>
   (app_src S A e authHeader (w, tr) = (resp, (w', tr')) \<longrightarrow>
      (\<exists>new. tr' = tr @ new \<and> app_commands S A e new))"
  using server_src_commands [of S C authHeader w tr resp w' tr']
    app_src_commands [of S A e authHeader w tr resp w' tr']
  by blast

text \<open>
  The witness has a branch name with a shell metacharacter in it: the pull command the
  shell receives carries it unchanged.
\<close>

theorem commands_are_interpolated_verbatim_witness:
  "Exec Pull ''git -C /srv/repo pull origin main; touch /tmp/x''
      (Inl (ExecError ''Command failed: git -C /srv/repo pull origin main; touch /tmp/x''))
     \<in> set (snd (snd (server_src demo_sys (demo_server\<lparr>BRANCH_NAME := ''main; touch /tmp/x''\<rparr>)
                         (Some ''s3cret'') (demo_world, [])))) \<and>
   server_commands (demo_server\<lparr>BRANCH_NAME := ''main; touch /tmp/x''\<rparr>)
     (snd (snd (server_src demo_sys (demo_server\<lparr>BRANCH_NAME := ''main; touch /tmp/x''\<rparr>)
                  (Some ''s3cret'') (demo_world, [])))) \<and>
   Exec Build ''tar -czf /tmp/src-9fceb02-Uakgb_J5m9g-0JDMbcJqL.tar.gz -C /srv/repo src'' (Inr [])
     \<in> set (snd (snd (app_src demo_sys demo_app demo_env (Some ''s3cret'') (demo_world, [])))) \<and>
   app_commands demo_sys demo_app demo_env
     (snd (snd (app_src demo_sys demo_app demo_env (Some ''s3cret'') (demo_world, []))))"
proof -
  let ?C = "demo_server\<lparr>BRANCH_NAME := ''main; touch /tmp/x''\<rparr>"
  let ?run = "server_src demo_sys ?C (Some ''s3cret'') (demo_world, [])"
  let ?run' = "app_src demo_sys demo_app demo_env (Some ''s3cret'') (demo_world, [])"
  have events:
    "Exec Pull ''git -C /srv/repo pull origin main; touch /tmp/x''
        (Inl (ExecError ''Command failed: git -C /srv/repo pull origin main; touch /tmp/x''))
       \<in> set (snd (snd ?run))"
    "Exec Build ''tar -czf /tmp/src-9fceb02-Uakgb_J5m9g-0JDMbcJqL.tar.gz -C /srv/repo src''
        (Inr []) \<in> set (snd (snd ?run'))"
    by code_simp+
  from commands_are_interpolated_verbatim
         [where S = demo_sys and C = ?C and authHeader = "Some ''s3cret''"
            and w = demo_world and tr = "[]"
            and resp = "fst ?run" and w' = "fst (snd ?run)" and tr' = "snd (snd ?run)"]
  have "server_commands ?C (snd (snd ?run))"
    by simp
  moreover
  from commands_are_interpolated_verbatim
         [where S = demo_sys and A = demo_app and e = demo_env and authHeader = "Some ''s3cret''"
            and w = demo_world and tr = "[]"
            and resp = "fst ?run'" and w' = "fst (snd ?run')" and tr' = "snd (snd ?run')"]
  have "app_commands demo_sys demo_app demo_env (snd (snd ?run'))"
    by simp
  ultimately show ?thesis using events by simp
qed

text \<open>
  C9, as the specification states it, fails for the build command of \<^verbatim>\<open>app.js\<close>: with
  \<^verbatim>\<open>SRC_FOLDER=/srv/repo/src\<close> the command that runs does not contain that value.
\<close>

theorem app_build_command_lacks_raw_source_folder:
  "SRC_FOLDER demo_app = ''/srv/repo/src'' \<and>
   issued Build (snd (snd (app_src demo_sys demo_app demo_env (Some ''s3cret'') (demo_world, [])))) =
     [''tar -czf /tmp/src-9fceb02-Uakgb_J5m9g-0JDMbcJqL.tar.gz -C /srv/repo src''] \<and>
   \<not> includes_str ''tar -czf /tmp/src-9fceb02-Uakgb_J5m9g-0JDMbcJqL.tar.gz -C /srv/repo src''
         (SRC_FOLDER demo_app)"
  by code_simp



section \<open>What the archive is rooted at\<close>














text \<open>
  A parent with a space in its name is outside the guard: the shell splits it, and
  \<^verbatim>\<open>tar\<close> is given another directory and another member.
\<close>

lemma tar_job_outside_the_guard:
  "tar_job ''tar -czf /tmp/a.tar.gz -C /srv/my repo src'' = Some (''/srv/my'', [''repo'', ''src''])"
  "tar_job ''tar -czf /tmp/a.tar.gz /etc/passwd -C /srv/repo src'' = None"
  "\<not> plain_word ''/srv/my repo''"
  by code_simp+

section \<open>One suspension point at a time\<close>

lemma server_steps_Finished [simp]: "server_steps n S C (Finished resp) s = (Finished resp, s)"
  by (induction n) auto

lemma server_steps_alone:
  "server_steps 6 S C (server_begin C authHeader) s =
     (case server_src S C authHeader s of (resp, s') \<Rightarrow> (Finished resp, s'))"
proof (cases "unauthorized authHeader (TOKEN C)")
  case True
  then show ?thesis by (simp add: server_begin_def server_src_def)
next
  case False
  obtain w tr where s: "s = (w, tr)" by (cases s)
  show ?thesis
    using False unfolding s server_begin_def server_src_def server_try_def
    by (simp add: eval_nat_numeral await_def execAsync_def resolve_def console_log_def
        console_error_def checkFileExists_def caught_def Let_def
        split: prod.splits sum.splits)
qed

lemma app_src_builds_once:
  assumes "app_src S A e authHeader (w, tr) = (Download p, (w', tr'))"
  shows "\<exists>new. tr' = tr @ new \<and> length (issued Build new) = 1"
  using assms
  apply (elim app_srcE)
  unfolding app_try_def Let_def
    apply (auto split: if_splits elim!: operationE)
  done

lemma both_check_then_both_build:
  assumes "\<not> fs_access S p w"
  shows "\<exists>a b w' new.
     interleave S C [False, True, False, True] (AtAccess n p, AtAccess n p, (w, tr)) =
       (a, b, (w', tr @ new)) \<and>
     issued Build new =
       [''cd '' @ GIT_REPO_PATH C @ '' && tar -czf '' @ n @ '' '' @ SRC_FOLDER C,
        ''cd '' @ GIT_REPO_PATH C @ '' && tar -czf '' @ n @ '' '' @ SRC_FOLDER C]"
  using assms
  by (auto simp: checkFileExists_def console_log_def execAsync_def caught_def console_error_def
      split: prod.splits sum.splits)

text \<open>
  C7, as the code has it. Nothing serializes the builds of a revision. In \<^verbatim>\<open>server.js\<close>
  a request builds whenever its own existence check finds no archive: when two requests
  for the same revision both check before either has built, both issue the build command
  for the same archive. In \<^verbatim>\<open>app.js\<close> every request that is answered with a download
  has issued a build command of its own.
\<close>

theorem builds_are_not_serialized:
  "(\<not> fs_access S p w \<longrightarrow>
      (\<exists>a b w' new.
         interleave S C [False, True, False, True] (AtAccess n p, AtAccess n p, (w, tr)) =
           (a, b, (w', tr @ new)) \<and>
         issued Build new =
           [''cd '' @ GIT_REPO_PATH C @ '' && tar -czf '' @ n @ '' '' @ SRC_FOLDER C,
            ''cd '' @ GIT_REPO_PATH C @ '' && tar -czf '' @ n @ '' '' @ SRC_FOLDER C])) \<and>
   (app_src S A e authHeader (w, tr) = (Download q, (w'', tr'')) \<longrightarrow>
      (\<exists>new. tr'' = tr @ new \<and> length (issued Build new) = 1))"
  using both_check_then_both_build [of S p w C n tr]
    app_src_builds_once [of S A e authHeader w tr q w'' tr'']
  by blast

text \<open>
  C7, as the specification states it, fails: two requests with the token arrive for a
  revision that has no archive yet and are resumed in turn; both are answered with the
  download, and the build command has run twice.
\<close>

theorem concurrent_first_requests_build_twice:
  "interleave demo_sys demo_server
     [False, True, False, True, False, True, False, True, False, True]
     (server_begin demo_server (Some ''s3cret''), server_begin demo_server (Some ''s3cret''),
      (demo_world, [])) =
   (Finished (Download ''/srv/repo/src-9fceb02.tar.gz''),
    Finished (Download ''/srv/repo/src-9fceb02.tar.gz''),
    (demo_world\<lparr>files := [''/srv/repo/src-9fceb02.tar.gz'', ''/srv/repo/src-9fceb02.tar.gz'']\<rparr>,
     [Exec Fetch ''git -C /srv/repo fetch origin'' (Inr []),
      Exec Fetch ''git -C /srv/repo fetch origin'' (Inr []),
      Exec Status ''git -C /srv/repo status'' (Inr (status_text demo_world)),
      Exec Status ''git -C /srv/repo status'' (Inr (status_text demo_world)),
      Exec RevParse ''git -C /srv/repo rev-parse HEAD''
        (Inr (''9fceb02d0ae598e95dc970b74767f19372d61af8'' @ [CHR 0x0A])),
      Exec RevParse ''git -C /srv/repo rev-parse HEAD''
        (Inr (''9fceb02d0ae598e95dc970b74767f19372d61af8'' @ [CHR 0x0A])),
      Access ''/srv/repo/src-9fceb02.tar.gz'' False,
      ConsoleLog ''Creating tar file...'',
      Access ''/srv/repo/src-9fceb02.tar.gz'' False,
      ConsoleLog ''Creating tar file...'',
      Exec Build ''cd /srv/repo && tar -czf src-9fceb02.tar.gz src'' (Inr []),
      Exec Build ''cd /srv/repo && tar -czf src-9fceb02.tar.gz src'' (Inr [])]))"
  by code_simp

theorem builds_are_not_serialized_witness:
  "\<not> fs_access demo_sys ''/srv/repo/src-9fceb02.tar.gz'' demo_world \<and>
   issued Build
     (snd (snd (snd (interleave demo_sys demo_server [False, True, False, True]
        (AtAccess ''src-9fceb02.tar.gz'' ''/srv/repo/src-9fceb02.tar.gz'',
         AtAccess ''src-9fceb02.tar.gz'' ''/srv/repo/src-9fceb02.tar.gz'',
         (demo_world, [])))))) =
     [''cd /srv/repo && tar -czf src-9fceb02.tar.gz src'',
      ''cd /srv/repo && tar -czf src-9fceb02.tar.gz src''] \<and>
   app_src demo_sys demo_app demo_env (Some ''s3cret'') (demo_world, []) =
     (Download ''/tmp/src-9fceb02-Uakgb_J5m9g-0JDMbcJqL.tar.gz'',
      snd (app_src demo_sys demo_app demo_env (Some ''s3cret'') (demo_world, []))) \<and>
   length (issued Build
     (snd (snd (app_src demo_sys demo_app demo_env (Some ''s3cret'') (demo_world, []))))) = 1"
proof -
  let ?run' = "app_src demo_sys demo_app demo_env (Some ''s3cret'') (demo_world, [])"
  have absent: "\<not> fs_access demo_sys ''/srv/repo/src-9fceb02.tar.gz'' demo_world"
    by code_simp
  have sent: "fst ?run' = Download ''/tmp/src-9fceb02-Uakgb_J5m9g-0JDMbcJqL.tar.gz''"
    by code_simp
  then have run': "?run' = (Download ''/tmp/src-9fceb02-Uakgb_J5m9g-0JDMbcJqL.tar.gz'',
                           (fst (snd ?run'), snd (snd ?run')))"
    by (metis prod.collapse)
  from builds_are_not_serialized
         [where S = demo_sys and C = demo_server and p = "''/srv/repo/src-9fceb02.tar.gz''"
            and n = "''src-9fceb02.tar.gz''" and w = demo_world and tr = "[]"
            and A = demo_app and e = demo_env and authHeader = "Some ''s3cret''"
            and q = "''/tmp/src-9fceb02-Uakgb_J5m9g-0JDMbcJqL.tar.gz''"
            and w'' = "fst (snd ?run')" and tr'' = "snd (snd ?run')"]
    absent run'
  have both: "(\<exists>a b w' new.
         interleave demo_sys demo_server [False, True, False, True]
           (AtAccess ''src-9fceb02.tar.gz'' ''/srv/repo/src-9fceb02.tar.gz'',
            AtAccess ''src-9fceb02.tar.gz'' ''/srv/repo/src-9fceb02.tar.gz'', (demo_world, [])) =
           (a, b, (w', [] @ new)) \<and>
         issued Build new =
           [''cd '' @ GIT_REPO_PATH demo_server @ '' && tar -czf '' @ ''src-9fceb02.tar.gz'' @
            '' '' @ SRC_FOLDER demo_server,
            ''cd '' @ GIT_REPO_PATH demo_server @ '' && tar -czf '' @ ''src-9fceb02.tar.gz'' @
            '' '' @ SRC_FOLDER demo_server])"
    and once: "length (issued Build (snd (snd ?run'))) = 1"
    by auto
  have vals: "GIT_REPO_PATH demo_server = ''/srv/repo''" "SRC_FOLDER demo_server = ''src''"
    by code_simp+
  from both have "issued Build
     (snd (snd (snd (interleave demo_sys demo_server [False, True, False, True]
        (AtAccess ''src-9fceb02.tar.gz'' ''/srv/repo/src-9fceb02.tar.gz'',
         AtAccess ''src-9fceb02.tar.gz'' ''/srv/repo/src-9fceb02.tar.gz'',
         (demo_world, [])))))) =
     [''cd /srv/repo && tar -czf src-9fceb02.tar.gz src'',
      ''cd /srv/repo && tar -czf src-9fceb02.tar.gz src'']"
    unfolding vals by auto
  with absent once sent show ?thesis
    by (metis prod.collapse)
qed

section \<open>What a request reads from the environment\<close>

lemma app_src_starts_with_fetch:
  assumes "\<not> unauthorized authHeader (TOKEN A)"
  shows "\<exists>r rest. snd (snd (app_src S A e authHeader (w, tr))) =
           tr @ Exec Fetch (''git -C '' @ interpolate (e ''GIT_REPO_PATH'') @ '' fetch origin'') r #
                rest"
proof -
  obtain resp w' tr' where run: "app_src S A e authHeader (w, tr) = (resp, (w', tr'))"
    by (metis prod.collapse)
  from app_src_sync [OF run assms] show ?thesis
    unfolding run sync_protocol_def by auto
qed

lemma app_start_captures:
  assumes "app_start e tmp = Inr P"
  shows "e ''BRANCH_NAME'' = Some (BRANCH_NAME (module P)) \<and>
         e ''SRC_FOLDER'' = Some (SRC_FOLDER (module P)) \<and>
         e ''TOKEN'' = Some (TOKEN (module P)) \<and> process_env P = e"
  using assms
  by (auto simp: app_start_def app_load_def missingEnvVars_def requiredEnvVars_def falsy_def
      interpolate_def split: if_splits option.splits)

lemma server_start_captures:
  assumes "server_start e = Inr Q"
  shows "e ''GIT_REPO_PATH'' = Some (GIT_REPO_PATH (module Q)) \<and>
         e ''BRANCH_NAME'' = Some (BRANCH_NAME (module Q)) \<and>
         e ''SRC_FOLDER'' = Some (SRC_FOLDER (module Q)) \<and>
         e ''TOKEN'' = Some (TOKEN (module Q)) \<and> process_env Q = e"
  using assms
  by (auto simp: server_start_def server_load_def falsy_def interpolate_def
      split: if_splits option.splits)

text \<open>
  C10. A process of \<^verbatim>\<open>app.js\<close> captures \<^verbatim>\<open>BRANCH_NAME\<close>, \<^verbatim>\<open>SRC_FOLDER\<close> and \<^verbatim>\<open>TOKEN\<close>
  when it starts and reads \<^verbatim>\<open>GIT_REPO_PATH\<close> for each request: setting any other variable
  afterwards leaves every request as it was, while after setting \<^verbatim>\<open>GIT_REPO_PATH\<close> the
  requests work on the new path, starting with the fetch. A process of \<^verbatim>\<open>server.js\<close>
  captures all four: setting any variable afterwards leaves every request as it was.
\<close>

theorem only_app_rereads_the_repository_path:
  "(app_start e tmp = Inr P \<longrightarrow>
      e ''BRANCH_NAME'' = Some (BRANCH_NAME (module P)) \<and>
      e ''SRC_FOLDER'' = Some (SRC_FOLDER (module P)) \<and>
      e ''TOKEN'' = Some (TOKEN (module P)) \<and> process_env P = e) \<and>
   (key \<noteq> ''GIT_REPO_PATH'' \<longrightarrow>
      app_request S (setenv key v P) authHeader s = app_request S P authHeader s) \<and>
   (\<not> unauthorized authHeader (TOKEN (module P)) \<longrightarrow>
      (\<exists>r rest. snd (snd (app_request S (setenv ''GIT_REPO_PATH'' v P) authHeader (w, tr))) =
         tr @ Exec Fetch (''git -C '' @ v @ '' fetch origin'') r # rest)) \<and>
   (server_start e = Inr Q \<longrightarrow>
      e ''GIT_REPO_PATH'' = Some (GIT_REPO_PATH (module Q)) \<and>
      e ''BRANCH_NAME'' = Some (BRANCH_NAME (module Q)) \<and>
      e ''SRC_FOLDER'' = Some (SRC_FOLDER (module Q)) \<and>
      e ''TOKEN'' = Some (TOKEN (module Q)) \<and> process_env Q = e) \<and>
   server_request S (setenv key v Q) authHeader s = server_request S Q authHeader s"
proof (intro conjI impI)
  assume "key \<noteq> ''GIT_REPO_PATH''"
  then show "app_request S (setenv key v P) authHeader s = app_request S P authHeader s"
    by (simp add: app_request_def setenv_def app_src_def app_try_def)
next
  assume auth: "\<not> unauthorized authHeader (TOKEN (module P))"
  from app_src_starts_with_fetch [OF auth, of S "(process_env P)(''GIT_REPO_PATH'' \<mapsto> v)" w tr]
  show "\<exists>r rest. snd (snd (app_request S (setenv ''GIT_REPO_PATH'' v P) authHeader (w, tr))) =
         tr @ Exec Fetch (''git -C '' @ v @ '' fetch origin'') r # rest"
    by (simp add: app_request_def setenv_def interpolate_def)
next
  show "server_request S (setenv key v Q) authHeader s = server_request S Q authHeader s"
    by (simp add: server_request_def setenv_def)
qed (use app_start_captures [of e tmp P] server_start_captures [of e Q] in blast)+

theorem only_app_rereads_the_repository_path_witness:
  "app_start demo_env ''/tmp'' = Inr \<lparr>module = demo_app, process_env = demo_env\<rparr> \<and>
   ''TOKEN'' \<noteq> ''GIT_REPO_PATH'' \<and>
   app_request demo_sys (setenv ''TOKEN'' ''rotated'' \<lparr>module = demo_app, process_env = demo_env\<rparr>)
       (Some ''s3cret'') (demo_world, []) =
     app_request demo_sys \<lparr>module = demo_app, process_env = demo_env\<rparr>
       (Some ''s3cret'') (demo_world, []) \<and>
   \<not> unauthorized (Some ''s3cret'') (TOKEN (module \<lparr>module = demo_app, process_env = demo_env\<rparr>)) \<and>
   snd (snd (app_request demo_sys
               (setenv ''GIT_REPO_PATH'' ''/nonexistent/path''
                  \<lparr>module = demo_app, process_env = demo_env\<rparr>)
               (Some ''s3cret'') (demo_world, []))) =
     [Exec Fetch ''git -C /nonexistent/path fetch origin''
        (Inl (ExecError ''Command failed: git -C /nonexistent/path fetch origin'')),
      ConsoleError (ExecError ''Command failed: git -C /nonexistent/path fetch origin'')] \<and>
   server_start (demo_env(''SRC_FOLDER'' \<mapsto> ''src'')) =
     Inr \<lparr>module = demo_server, process_env = demo_env(''SRC_FOLDER'' \<mapsto> ''src'')\<rparr> \<and>
   server_request demo_sys
       (setenv ''GIT_REPO_PATH'' ''/nonexistent/path''
          \<lparr>module = demo_server, process_env = demo_env(''SRC_FOLDER'' \<mapsto> ''src'')\<rparr>)
       (Some ''s3cret'') (demo_world, []) =
     server_src demo_sys demo_server (Some ''s3cret'') (demo_world, [])"
proof -
  let ?P = "\<lparr>module = demo_app, process_env = demo_env\<rparr>"
  let ?Q = "\<lparr>module = demo_server, process_env = demo_env(''SRC_FOLDER'' \<mapsto> ''src'')\<rparr>"
  have starts: "app_start demo_env ''/tmp'' = Inr ?P"
    "server_start (demo_env(''SRC_FOLDER'' \<mapsto> ''src'')) = Inr ?Q"
    by (simp_all add: app_start_def app_load_def missingEnvVars_def requiredEnvVars_def
        falsy_def interpolate_def demo_env_def demo_app_def server_start_def server_load_def
        demo_server_def)
  have auth: "\<not> unauthorized (Some ''s3cret'') (TOKEN (module ?P))"
    by code_simp
  have moved: "snd (snd (app_request demo_sys (setenv ''GIT_REPO_PATH'' ''/nonexistent/path'' ?P)
               (Some ''s3cret'') (demo_world, []))) =
     [Exec Fetch ''git -C /nonexistent/path fetch origin''
        (Inl (ExecError ''Command failed: git -C /nonexistent/path fetch origin'')),
      ConsoleError (ExecError ''Command failed: git -C /nonexistent/path fetch origin'')]"
    by (simp add: app_request_def setenv_def app_src_def app_try_def await_def execAsync_def
        console_error_def demo_sys_def demo_exec_def demo_app_def unauthorized_def falsy_def
        interpolate_def)
  note inst = only_app_rereads_the_repository_path
         [where e = demo_env and tmp = "''/tmp''" and P = ?P and key = "''TOKEN''"
            and v = "''rotated''" and S = demo_sys and authHeader = "Some ''s3cret''"
            and s = "(demo_world, [])" and Q = ?Q]
  from inst have same: "app_request demo_sys (setenv ''TOKEN'' ''rotated'' ?P)
       (Some ''s3cret'') (demo_world, []) =
     app_request demo_sys ?P (Some ''s3cret'') (demo_world, [])"
    by simp
  from only_app_rereads_the_repository_path
         [where key = "''GIT_REPO_PATH''" and v = "''/nonexistent/path''" and S = demo_sys
            and authHeader = "Some ''s3cret''" and s = "(demo_world, [])" and Q = ?Q]
  have "server_request demo_sys (setenv ''GIT_REPO_PATH'' ''/nonexistent/path'' ?Q)
       (Some ''s3cret'') (demo_world, []) =
     server_request demo_sys ?Q (Some ''s3cret'') (demo_world, [])"
    by simp
  then have kept: "server_request demo_sys (setenv ''GIT_REPO_PATH'' ''/nonexistent/path'' ?Q)
       (Some ''s3cret'') (demo_world, []) =
     server_src demo_sys demo_server (Some ''s3cret'') (demo_world, [])"
    by (simp add: server_request_def)
  from starts auth moved same kept show ?thesis by simp
qed

end
